theory Spec2Isabelle
  imports Complex_Main
begin

section \<open>Values\<close>

text \<open>
  The handlers of \<^verbatim>\<open>main.py\<close> read JSON bodies and answer with dictionaries.
  A JSON value is \<^verbatim>\<open>null\<close>, a boolean, an integer, a float, a string, a list or an
  object; an object (a Python \<^verbatim>\<open>dict\<close>) is an association list from keys to values.
  A float that is read from a body is represented by the rational number it denotes (the
  comparisons of the source are exact on it). An instant (\<^verbatim>\<open>datetime\<close>) is its
  number of microseconds since the epoch.
\<close>

datatype json =
    JNull
  | JBool bool
  | JInt int
  | JNum rat
  | JStr string
  | JList "json list"
  | JDict "(string \<times> json) list"

type_synonym jdict = "(string \<times> json) list"

type_synonym datetime = int

text \<open>
  A float that a handler computes is kept as the expression that computes it:
  \<open>TrueDiv a b\<close> is the double that Python's \<^verbatim>\<open>a / b\<close> yields for the integers
  \<open>a\<close> and \<open>b\<close>, and \<open>FloatMul x n\<close> is the double of \<^verbatim>\<open>x * n\<close>. Each
  operation rounds to a double; the rounding is not carried out here, so the digits of
  the result are left to Python.
\<close>

datatype pyfloat = TrueDiv int int | FloatMul pyfloat int

text \<open>The values of the dictionaries that the handlers answer with.\<close>

datatype pyval =
    PBool bool
  | PInt int
  | PFloat pyfloat
  | PStr string
  | PJson json
  | PList "pyval list"

type_synonym pydict = "(string \<times> pyval) list"

text \<open>Python's truth value of an object, as \<^verbatim>\<open>not x\<close> and \<^verbatim>\<open>x or y\<close> use it.\<close>

fun truthy :: "json \<Rightarrow> bool" where
  "truthy JNull = False"
| "truthy (JBool b) = b"
| "truthy (JInt i) = (i \<noteq> 0)"
| "truthy (JNum q) = (q \<noteq> 0)"
| "truthy (JStr s) = (s \<noteq> [])"
| "truthy (JList xs) = (xs \<noteq> [])"
| "truthy (JDict kvs) = (kvs \<noteq> [])"

text \<open>\<^verbatim>\<open>x or y\<close>: the first operand when it is true, the second otherwise.\<close>

definition py_or :: "json \<Rightarrow> json \<Rightarrow> json" where
  "py_or x y = (if truthy x then x else y)"

text \<open>\<^verbatim>\<open>d.get(k)\<close>: the value under the key, \<^verbatim>\<open>None\<close> when the key is absent.\<close>

definition dict_get :: "jdict \<Rightarrow> string \<Rightarrow> json" where
  "dict_get d k = (case map_of d k of None \<Rightarrow> JNull | Some v \<Rightarrow> v)"

text \<open>\<^verbatim>\<open>x.get(k, 0)\<close> on a field that may be absent from a stored document.\<close>

definition get0 :: "int option \<Rightarrow> int" where
  "get0 v = (case v of None \<Rightarrow> 0 | Some n \<Rightarrow> n)"

text \<open>\<^verbatim>\<open>str\<close> of a number, in decimal.\<close>

definition digit_char :: "nat \<Rightarrow> char" where
  "digit_char d = ''0123456789'' ! d"

fun str_nat :: "nat \<Rightarrow> string" where
  "str_nat n = (if n < 10 then [digit_char n] else str_nat (n div 10) @ [digit_char (n mod 10)])"

declare str_nat.simps [simp del]

definition str_int :: "int \<Rightarrow> string" where
  "str_int i = (if i < 0 then CHR ''-'' # str_nat (nat (- i)) else str_nat (nat i))"

section \<open>Record shapes (schemas.py)\<close>

text \<open>
  Each Pydantic model is a record with the model's fields. The field \<^verbatim>\<open>end\<close> of
  an admission is called \<open>adm_end\<close>. Of the patient and of the lab result only
  the scalar fields are kept: the handlers store these payloads whole and never look
  inside them.
\<close>

record Patient =
  national_mrn :: string
  name_first :: string
  name_last :: "string option"
  phone :: "string option"
  address :: "string option"

record TriageEvent =
  tr_patient_id :: string
  arrival_mode :: "string option"
  gcs :: "int option"
  vital_signs :: "(string \<times> rat option) list"
  esi_level :: "int option"
  critical_flags :: "string list"
  consent_emergency_protocol :: bool
  tr_notes :: "string option"

record Admission =
  adm_patient_id :: string
  room_code :: string
  bed_number :: "int option"
  adm_start :: datetime
  adm_end :: "datetime option"
  risk_movement :: "string option"

record Procedure =
  pr_patient_id :: string
  doctor_id :: string
  description :: string
  requires_sterile :: bool
  sterile_batch :: "string option"
  cssd_return_due :: "datetime option"
  e_signature :: "string option"
  iot_devices :: "string list"

record LabResult =
  order_id :: string
  lab_status :: string

record Prescription =
  rx_patient_id :: string
  rx_items :: "jdict list"
  allergies_checked :: bool
  interactions_checked :: bool
  rx_status :: string

record AuditLog =
  actor_id :: "string option"
  action :: string
  entity :: string
  entity_id :: "string option"
  meta :: "(string \<times> string) list"

text \<open>\<^verbatim>\<open>AuditLog(action=..., entity=..., entity_id=..., meta=...)\<close> with the defaults
  of the model for the fields not given.\<close>

definition mk_audit :: "string \<Rightarrow> string \<Rightarrow> string \<Rightarrow> (string \<times> string) list \<Rightarrow> AuditLog" where
  "mk_audit a e i m = \<lparr>actor_id = None, action = a, entity = e, entity_id = Some i, meta = m\<rparr>"

section \<open>The document store\<close>

text \<open>
  Stored documents. A room and an inventory item are read with
  \<^verbatim>\<open>.get(field, 0)\<close>, so their numeric fields may be absent (\<open>None\<close>). An
  admission document carries the generated \<^verbatim>\<open>_id\<close>, the optional field
  \<^verbatim>\<open>id\<close> that the fallback lookup of \<^verbatim>\<open>discharge\<close> reads, and the
  fields of the payload. A stored procedure holds the dictionary built by the handler:
  its due date is either the instant given by the caller or the ISO-8601 text of an
  instant.
\<close>

record room_doc =
  code :: string
  zone :: string
  bed_count :: "int option"
  occupied_beds :: "int option"
  tariff_class :: string

record admission_doc =
  adm_oid :: string
  adm_id :: "string option"
  adm :: Admission

record inventory_doc =
  sku :: "string option"
  stock :: "int option"

datatype due = DueGiven datetime | DueIso datetime

record procedure_data =
  pd_payload :: Procedure
  pd_sterile_batch :: "string option"
  pd_cssd_return_due :: "due option"

record triage_data =
  td_payload :: TriageEvent
  td_consent_emergency_protocol :: bool
  td_critical_flags :: "string list"

record store =
  patients :: "(string \<times> Patient) list"
  triageevents :: "(string \<times> triage_data) list"
  rooms :: "room_doc list"
  admissions :: "admission_doc list"
  inventoryitems :: "inventory_doc list"
  procedures :: "(string \<times> procedure_data) list"
  labresults :: "(string \<times> LabResult) list"
  auditlogs :: "(string \<times> AuditLog) list"
  next_oid :: nat
  unwritable :: "string list"

datatype error = HTTPException nat string | StoreException

text \<open>
  Modelled from the spec: \<^verbatim>\<open>database.py\<close> (\<^verbatim>\<open>db\<close>,
  \<^verbatim>\<open>create_document\<close>) is not among the source files. The spec describes the store
  as a document collection per entity kind, each record persisted with a generated
  identifier; \<open>create_document\<close> appends the document to its collection and returns
  the identifier as a string. The identifier of the n-th insertion is rendered in
  decimal. An insertion into a collection listed in \<open>unwritable\<close> raises, and
  writes nothing: this is the parameter that stands for a write that fails.
\<close>

definition create_document ::
  "string \<Rightarrow> (string \<Rightarrow> store \<Rightarrow> store) \<Rightarrow> store \<Rightarrow> (error + string) \<times> store" where
  "create_document coll ins s =
     (if coll \<in> set (unwritable s) then (Inl StoreException, s)
      else let i = str_nat (next_oid s)
           in (Inr i, (ins i s)\<lparr>next_oid := Suc (next_oid s)\<rparr>))"

text \<open>
  Modelled from the spec: \<^verbatim>\<open>find_one\<close> returns the first document of the collection
  that matches, \<^verbatim>\<open>update_one\<close> changes the first document that matches and
  nothing when none does.
\<close>

definition find_one :: "('a \<Rightarrow> bool) \<Rightarrow> 'a list \<Rightarrow> 'a option" where
  "find_one P xs = List.find P xs"

fun update_one :: "('a \<Rightarrow> bool) \<Rightarrow> ('a \<Rightarrow> 'a) \<Rightarrow> 'a list \<Rightarrow> 'a list" where
  "update_one P f [] = []"
| "update_one P f (x # xs) = (if P x then f x # xs else x # update_one P f xs)"

text \<open>\<^verbatim>\<open>{"$inc": {"occupied_beds": k}}\<close>: an absent field counts as 0.\<close>

definition inc_occupied_beds :: "int \<Rightarrow> room_doc \<Rightarrow> room_doc" where
  "inc_occupied_beds k r = r\<lparr>occupied_beds := Some (get0 (occupied_beds r) + k)\<rparr>"

definition set_end :: "datetime \<Rightarrow> admission_doc \<Rightarrow> admission_doc" where
  "set_end t d = d\<lparr>adm := (adm d)\<lparr>adm_end := Some t\<rparr>\<rparr>"

section \<open>Handlers (main.py)\<close>


definition create_admission :: "store \<Rightarrow> Admission \<Rightarrow> (error + pydict) \<times> store" where
  "create_admission s payload =
     (case find_one (\<lambda>r. code r = room_code payload) (rooms s) of
        None \<Rightarrow> (Inl (HTTPException 404 ''Room not found''), s)
      | Some room \<Rightarrow>
          if get0 (occupied_beds room) \<ge> get0 (bed_count room)
          then (Inl (HTTPException 409 ''No available bed''), s)
          else
            (case create_document ''admission''
                    (\<lambda>i t. t\<lparr>admissions := admissions t @
                       [\<lparr>adm_oid = i, adm_id = None, adm = payload\<rparr>]\<rparr>) s of
               (Inl e, s1) \<Rightarrow> (Inl e, s1)
             | (Inr aid, s1) \<Rightarrow>
                 let s2 = s1\<lparr>rooms := update_one (\<lambda>r. code r = room_code payload)
                                         (inc_occupied_beds 1) (rooms s1)\<rparr>
                 in (case create_document ''auditlog''
                          (\<lambda>i t. t\<lparr>auditlogs := auditlogs t @
                             [(i, mk_audit ''create'' ''admission'' aid [])]\<rparr>) s2 of
                       (Inl e, s3) \<Rightarrow> (Inl e, s3)
                     | (Inr _, s3) \<Rightarrow> (Inr [(''id'', PStr aid)], s3))))"

text \<open>
  \<^verbatim>\<open>discharge\<close>: the first line of the source is dead (\<^verbatim>\<open>... if False else None\<close>).
  The admission is looked up twice: first with the query
  \<^verbatim>\<open>{"_id": {"$oid": admission_id}}\<close>, then, when that finds nothing, by the field
  \<^verbatim>\<open>id\<close>.

  Modelled from the spec: the first query hands the store the object
  \<^verbatim>\<open>{"$oid": admission_id}\<close> as a condition on \<^verbatim>\<open>_id\<close>. How the store reads
  that object is the parameter \<open>oid\<close>: it gives the predicate on admission documents
  that the condition denotes, or the error the store raises when it rejects the
  condition. The spec reads the lookup as that of the admission with the given
  identifier (\<open>oid_lookup\<close>); \<open>oid_unmatched\<close> is a store for which the condition
  holds of no document, \<open>oid_rejected\<close> a store that rejects it.
\<close>

type_synonym oid_ops = "string \<Rightarrow> error + (admission_doc \<Rightarrow> bool)"

definition oid_lookup :: oid_ops where
  "oid_lookup admission_id = Inr (\<lambda>d. adm_oid d = admission_id)"

definition oid_unmatched :: oid_ops where
  "oid_unmatched admission_id = Inr (\<lambda>d. False)"

definition oid_rejected :: oid_ops where
  "oid_rejected admission_id = Inl StoreException"

definition find_admission :: "oid_ops \<Rightarrow> admission_doc list \<Rightarrow> string \<Rightarrow> error + admission_doc option" where
  "find_admission oid docs admission_id =
     (case oid admission_id of
        Inl e \<Rightarrow> Inl e
      | Inr P \<Rightarrow>
          (case find_one P docs of
             Some d \<Rightarrow> Inr (Some d)
           | None \<Rightarrow> Inr (find_one (\<lambda>d. adm_id d = Some admission_id) docs)))"

definition discharge :: "oid_ops \<Rightarrow> store \<Rightarrow> datetime \<Rightarrow> string \<Rightarrow> (error + pydict) \<times> store" where
  "discharge oid s now admission_id =
     (case find_admission oid (admissions s) admission_id of
        Inl e \<Rightarrow> (Inl e, s)
      | Inr None \<Rightarrow> (Inl (HTTPException 404 ''Admission not found''), s)
      | Inr (Some admission) \<Rightarrow>
          let s1 = s\<lparr>rooms := update_one (\<lambda>r. code r = room_code (adm admission))
                                 (inc_occupied_beds (- 1)) (rooms s)\<rparr>;
              s2 = s1\<lparr>admissions := update_one (\<lambda>d. adm_oid d = adm_oid admission)
                                       (set_end now) (admissions s1)\<rparr>
          in (case create_document ''auditlog''
                   (\<lambda>i t. t\<lparr>auditlogs := auditlogs t @
                      [(i, mk_audit ''update'' ''admission'' admission_id [(''op'', ''discharge'')])]\<rparr>) s2 of
                (Inl e, s3) \<Rightarrow> (Inl e, s3)
              | (Inr _, s3) \<Rightarrow> (Inr [(''status'', PStr ''ok'')], s3)))"

text \<open>
  \<^verbatim>\<open>triage\<close>: \<open>data\<close> is the dump of the payload; the handler overwrites its
  consent and appends to its flags, stores it and answers with the identifier, the
  verdict and the consent of \<open>data\<close>.
\<close>

definition spo2_of :: "TriageEvent \<Rightarrow> rat option" where
  "spo2_of payload =
     (if vital_signs payload \<noteq> []
      then (case map_of (vital_signs payload) ''spo2'' of None \<Rightarrow> None | Some v \<Rightarrow> v)
      else None)"

definition triage_critical :: "TriageEvent \<Rightarrow> bool" where
  "triage_critical payload =
     (let critical = False;
          critical = (if gcs payload \<noteq> None \<and> the (gcs payload) \<le> 8 then True else critical);
          spo2 = spo2_of payload;
          critical = (if spo2 \<noteq> None \<and> the spo2 < 90 then True else critical)
      in critical)"

definition triage_dump :: "TriageEvent \<Rightarrow> triage_data" where
  "triage_dump payload =
     (let data = \<lparr>td_payload = payload,
                  td_consent_emergency_protocol = consent_emergency_protocol payload,
                  td_critical_flags = critical_flags payload\<rparr>
      in if triage_critical payload \<and> \<not> consent_emergency_protocol payload
         then data\<lparr>td_consent_emergency_protocol := True,
                   td_critical_flags := td_critical_flags data @ [''auto_consent_emergency_protocol'']\<rparr>
         else data)"

definition triage :: "store \<Rightarrow> TriageEvent \<Rightarrow> (error + pydict) \<times> store" where
  "triage s payload =
     (let critical = triage_critical payload;
          data = triage_dump payload
      in case create_document ''triageevent''
                (\<lambda>i t. t\<lparr>triageevents := triageevents t @ [(i, data)]\<rparr>) s of
           (Inl e, s1) \<Rightarrow> (Inl e, s1)
         | (Inr tid, s1) \<Rightarrow>
             (case create_document ''auditlog''
                     (\<lambda>i t. t\<lparr>auditlogs := auditlogs t @
                        [(i, mk_audit ''create'' ''triageevent'' tid [])]\<rparr>) s1 of
                (Inl e, s2) \<Rightarrow> (Inl e, s2)
              | (Inr _, s2) \<Rightarrow>
                  (Inr [(''id'', PStr tid), (''critical'', PBool critical),
                        (''consent'', PBool (td_consent_emergency_protocol data))], s2)))"

text \<open>
  \<^verbatim>\<open>create_procedure\<close> reads the clock twice: \<open>stamp\<close> is the integer
  \<^verbatim>\<open>int(datetime.now().timestamp())\<close>, the whole seconds of the first reading, and
  \<open>now\<close> is the instant of \<^verbatim>\<open>datetime.now(timezone.utc)\<close>.
  \<^verbatim>\<open>not payload.sterile_batch\<close> holds of \<^verbatim>\<open>None\<close> and of the empty string.
\<close>

definition hours :: "int \<Rightarrow> int" where
  "hours h = h * 3600 * 1000000"

definition str_absent :: "string option \<Rightarrow> bool" where
  "str_absent v = (case v of None \<Rightarrow> True | Some x \<Rightarrow> x = [])"

definition procedure_dump :: "int \<Rightarrow> datetime \<Rightarrow> Procedure \<Rightarrow> procedure_data" where
  "procedure_dump stamp now payload =
     (let data = \<lparr>pd_payload = payload,
                  pd_sterile_batch = sterile_batch payload,
                  pd_cssd_return_due = map_option DueGiven (cssd_return_due payload)\<rparr>
      in if requires_sterile payload \<and> str_absent (sterile_batch payload)
         then data\<lparr>pd_sterile_batch := Some (''AUTO-'' @ str_int stamp),
                   pd_cssd_return_due := Some (DueIso (now + hours 8))\<rparr>
         else data)"

definition create_procedure ::
  "store \<Rightarrow> int \<Rightarrow> datetime \<Rightarrow> Procedure \<Rightarrow> (error + pydict) \<times> store" where
  "create_procedure s stamp now payload =
     (let data = procedure_dump stamp now payload
      in case create_document ''procedure''
                (\<lambda>i t. t\<lparr>procedures := procedures t @ [(i, data)]\<rparr>) s of
           (Inl e, s1) \<Rightarrow> (Inl e, s1)
         | (Inr pid, s1) \<Rightarrow>
             (case create_document ''auditlog''
                     (\<lambda>i t. t\<lparr>auditlogs := auditlogs t @
                        [(i, mk_audit ''create'' ''procedure'' pid [])]\<rparr>) s1 of
                (Inl e, s2) \<Rightarrow> (Inl e, s2)
              | (Inr _, s2) \<Rightarrow> (Inr [(''id'', PStr pid)], s2)))"

text \<open>
  \<^verbatim>\<open>validate_prescription\<close>. The allergen line of the source is dead
  (\<^verbatim>\<open>... if False else set()\<close>) and its value is never read. An item is any JSON
  object (\<^verbatim>\<open>List[Dict[str, Any]]\<close>), so the identifier that the handler resolves
  can be any JSON value, and the handler passes it to the store as it is.

  Modelled from the spec: the query \<^verbatim>\<open>{"sku": v}\<close> of \<^verbatim>\<open>find_one\<close>. A string
  matches the inventory documents whose \<^verbatim>\<open>sku\<close> is that string;
  \<^verbatim>\<open>None\<close> matches the documents without the field; a number, a boolean or a list
  matches no document, the \<^verbatim>\<open>sku\<close> of an inventory document being a string. An
  object is a condition in the query language of the store
  (\<^verbatim>\<open>{"$gt": ""}\<close>, \<^verbatim>\<open>{"$in": [...]}\<close>, ...): how the store reads it is the
  parameter \<open>ops\<close>, which gives the predicate on inventory documents that the object
  denotes, or the error the store raises when it rejects the object. An error of the
  store ends the handler.
\<close>

record PrescriptionValidateRequest =
  prescription :: Prescription

type_synonym sku_ops = "jdict \<Rightarrow> error + (inventory_doc \<Rightarrow> bool)"

definition sku_query :: "sku_ops \<Rightarrow> json \<Rightarrow> error + (inventory_doc \<Rightarrow> bool)" where
  "sku_query ops v =
     (case v of
        JNull \<Rightarrow> Inr (\<lambda>d. sku d = None)
      | JStr x \<Rightarrow> Inr (\<lambda>d. sku d = Some x)
      | JDict q \<Rightarrow> ops q
      | _ \<Rightarrow> Inr (\<lambda>d. False))"

definition find_one_sku :: "sku_ops \<Rightarrow> inventory_doc list \<Rightarrow> json \<Rightarrow> error + inventory_doc option" where
  "find_one_sku ops db_inv v =
     (case sku_query ops v of Inl e \<Rightarrow> Inl e | Inr P \<Rightarrow> Inr (find_one P db_inv))"

definition resolve_sku :: "jdict \<Rightarrow> json" where
  "resolve_sku it = py_or (dict_get it ''drug'') (dict_get it ''sku'')"

fun stock_loop :: "sku_ops \<Rightarrow> inventory_doc list \<Rightarrow> jdict list \<Rightarrow> json list \<Rightarrow> error + json list" where
  "stock_loop ops db_inv [] out_of_stock = Inr out_of_stock"
| "stock_loop ops db_inv (it # items) out_of_stock =
     (let sku = resolve_sku it
      in case find_one_sku ops db_inv sku of
           Inl e \<Rightarrow> Inl e
         | Inr inv_item \<Rightarrow>
             stock_loop ops db_inv items
               (case inv_item of
                  None \<Rightarrow> out_of_stock @ [sku]
                | Some d \<Rightarrow> if get0 (stock d) \<le> 0 then out_of_stock @ [sku] else out_of_stock))"

definition validate_prescription ::
  "sku_ops \<Rightarrow> store \<Rightarrow> PrescriptionValidateRequest \<Rightarrow> (error + pydict) \<times> store" where
  "validate_prescription ops s req =
     (let p = prescription req;
          items = rx_items p
      in case stock_loop ops (inventoryitems s) items [] of
           Inl e \<Rightarrow> (Inl e, s)
         | Inr out_of_stock \<Rightarrow>
             let status = (if out_of_stock = [] then ''validated'' else ''out_of_stock_external'')
             in (Inr [(''status'', PStr status),
                      (''out_of_stock'', PList (map PJson out_of_stock))], s))"


text \<open>
  \<^verbatim>\<open>dashboard_bor\<close>: the loop adds up the two counts. The rate is computed only
  when \<^verbatim>\<open>total_beds\<close> is not zero: Python's true division of the two integers,
  a double, then its product with 100, a double again.
\<close>

fun bor_loop :: "room_doc list \<Rightarrow> int \<Rightarrow> int \<Rightarrow> int \<times> int" where
  "bor_loop [] total_beds occupied = (total_beds, occupied)"
| "bor_loop (r # rs) total_beds occupied =
     bor_loop rs (total_beds + get0 (bed_count r)) (occupied + get0 (occupied_beds r))"

definition dashboard_bor :: "store \<Rightarrow> (error + pydict) \<times> store" where
  "dashboard_bor s =
     (case bor_loop (rooms s) 0 0 of
        (total_beds, occupied) \<Rightarrow>
          (Inr [(''total_beds'', PInt total_beds), (''occupied'', PInt occupied),
                (''bor'', if total_beds \<noteq> 0
                          then PFloat (FloatMul (TrueDiv occupied total_beds) 100)
                          else PInt 0)], s))"

section \<open>Example stores\<close>

definition empty_store :: store where
  "empty_store = \<lparr>patients = [], triageevents = [], rooms = [], admissions = [],
                   inventoryitems = [], procedures = [], labresults = [], auditlogs = [],
                   next_oid = 0, unwritable = []\<rparr>"

definition room_A1 :: room_doc where
  "room_A1 = \<lparr>code = ''A1'', zone = ''Umum'', bed_count = Some 1, occupied_beds = Some 0,
               tariff_class = ''3''\<rparr>"

definition ward :: store where
  "ward = empty_store\<lparr>rooms := [room_A1]\<rparr>"

definition stay :: Admission where
  "stay = \<lparr>adm_patient_id = ''p1'', room_code = ''A1'', bed_number = None,
            adm_start = 0, adm_end = None, risk_movement = None\<rparr>"

definition late_stay :: Admission where
  "late_stay = stay\<lparr>adm_end := Some 7\<rparr>"

definition full_ward :: store where
  "full_ward = empty_store\<lparr>rooms := [room_A1\<lparr>occupied_beds := Some 1\<rparr>]\<rparr>"

text \<open>A room of four beds with one occupied, and a room of three beds whose document
  has no field \<^verbatim>\<open>occupied_beds\<close>.\<close>

definition big_ward :: store where
  "big_ward = empty_store\<lparr>rooms :=
      [room_A1\<lparr>bed_count := Some 4, occupied_beds := Some 1\<rparr>,
       \<lparr>code = ''B2'', zone = ''Umum'', bed_count = Some 3, occupied_beds = None,
        tariff_class = ''2''\<rparr>]\<rparr>"

text \<open>A ward whose only admission is closed already, with no bed counted as occupied.\<close>

definition closed_adm :: admission_doc where
  "closed_adm = \<lparr>adm_oid = ''0'', adm_id = None, adm = stay\<lparr>adm_end := Some 5\<rparr>\<rparr>"

definition closed_ward :: store where
  "closed_ward = empty_store\<lparr>rooms := [room_A1], admissions := [closed_adm], next_oid := 2\<rparr>"

text \<open>A ward with its one bed occupied by an admission that carries the field
  \<^verbatim>\<open>id\<close>, as the fallback lookup of \<^verbatim>\<open>discharge\<close> reads it.\<close>

definition legacy_ward :: store where
  "legacy_ward = empty_store\<lparr>rooms := [room_A1\<lparr>occupied_beds := Some 1\<rparr>],
      admissions := [\<lparr>adm_oid = ''0'', adm_id = Some ''a1'', adm = stay\<rparr>], next_oid := 2\<rparr>"

text \<open>An inventory with Y in stock, X at zero and W without a stock field.\<close>

definition pharmacy :: store where
  "pharmacy = empty_store\<lparr>inventoryitems :=
      [\<lparr>sku = Some ''Y'', stock = Some 4\<rparr>, \<lparr>sku = Some ''X'', stock = Some 0\<rparr>,
       \<lparr>sku = Some ''W'', stock = None\<rparr>]\<rparr>"

text \<open>An example reading of the objects in a query: the store knows
  \<^verbatim>\<open>{"$exists": true}\<close>, which holds of the documents that have the field, and
  rejects every other object.\<close>

definition exists_ops :: sku_ops where
  "exists_ops q =
     (if q = [(''$exists'', JBool True)] then Inr (\<lambda>d. sku d \<noteq> None) else Inl StoreException)"

definition rx_items_example :: "jdict list" where
  "rx_items_example =
     [[(''sku'', JStr ''X'')],
      [(''sku'', JStr ''X''), (''drug'', JStr ''Y'')],
      [(''drug'', JStr []), (''sku'', JStr ''Y'')],
      [(''drug'', JStr ''Z''), (''sku'', JStr ''Y'')],
      [(''drug'', JStr ''W'')],
      [(''dose'', JInt 2)],
      [(''drug'', JDict [(''$exists'', JBool True)])]]"

definition rx :: PrescriptionValidateRequest where
  "rx = \<lparr>prescription = \<lparr>rx_patient_id = ''p1'', rx_items = rx_items_example,
           allergies_checked = False, interactions_checked = False, rx_status = ''draft''\<rparr>\<rparr>"

definition rx_rejected :: PrescriptionValidateRequest where
  "rx_rejected = \<lparr>prescription = \<lparr>rx_patient_id = ''p1'',
           rx_items = [[(''drug'', JStr ''Y'')], [(''sku'', JDict [(''$bogus'', JInt 1)])]],
           allergies_checked = False, interactions_checked = False, rx_status = ''draft''\<rparr>\<rparr>"

definition casualty :: TriageEvent where
  "casualty = \<lparr>tr_patient_id = ''p1'', arrival_mode = None, gcs = Some 7,
                vital_signs = [(''spo2'', Some 95)], esi_level = None, critical_flags = [],
                consent_emergency_protocol = False, tr_notes = None\<rparr>"



text \<open>A sterile procedure sent with an empty batch string and a due date of its own.\<close>

definition swab :: Procedure where
  "swab = \<lparr>pr_patient_id = ''p1'', doctor_id = ''d1'', description = ''dressing'',
            requires_sterile = True, sterile_batch = Some [], cssd_return_due = Some 5,
            e_signature = None, iot_devices = []\<rparr>"

section \<open>Reading the answers\<close>

text \<open>The value of a field of the dictionary a handler answers with, if it answers.\<close>

definition answer :: "(error + pydict) \<times> store \<Rightarrow> string \<Rightarrow> pyval option" where
  "answer r k = (case fst r of Inl e \<Rightarrow> None | Inr d \<Rightarrow> map_of d k)"

text \<open>The test that the loop of \<^verbatim>\<open>validate_prescription\<close> makes on one item whose
  lookup the store answers.\<close>

definition item_out_of_stock :: "sku_ops \<Rightarrow> inventory_doc list \<Rightarrow> jdict \<Rightarrow> bool" where
  "item_out_of_stock ops db_inv it =
     (case find_one_sku ops db_inv (resolve_sku it) of
        Inl e \<Rightarrow> False
      | Inr None \<Rightarrow> True
      | Inr (Some d) \<Rightarrow> get0 (stock d) \<le> 0)"

section \<open>Lookups and updates\<close>

lemma find_one_None: "find_one P xs = None \<longleftrightarrow> (\<forall>x\<in>set xs. \<not> P x)"
  unfolding find_one_def by (induction xs) auto

lemma find_one_Some_holds: "find_one P xs = Some x \<Longrightarrow> P x \<and> x \<in> set xs"
  unfolding find_one_def by (induction xs) (auto split: if_splits)

lemma find_one_first:
  "find_one P xs = Some x \<longleftrightarrow>
     (\<exists>i<length xs. P (xs ! i) \<and> x = xs ! i \<and> (\<forall>j<i. \<not> P (xs ! j)))"
  unfolding find_one_def by (rule find_Some_iff)

lemma update_one_length: "length (update_one P f xs) = length xs"
  by (induction xs) auto

lemma update_one_none: "find_one P xs = None \<Longrightarrow> update_one P f xs = xs"
  unfolding find_one_def by (induction xs) (auto split: if_splits)

lemma update_one_found:
  "find_one P xs = Some x \<Longrightarrow>
     \<exists>i<length xs. xs ! i = x \<and> (\<forall>j<i. \<not> P (xs ! j)) \<and> update_one P f xs = xs[i := f x]"
proof (induction xs)
  case Nil
  then show ?case by (simp add: find_one_def)
next
  case (Cons y ys)
  show ?case
  proof (cases "P y")
    case True
    with Cons.prems have "y = x" by (simp add: find_one_def)
    with True show ?thesis by (intro exI[of _ 0]) simp
  next
    case False
    with Cons.prems have "find_one P ys = Some x" by (simp add: find_one_def)
    from Cons.IH[OF this] obtain i where i: "i < length ys" "ys ! i = x"
      "\<forall>j<i. \<not> P (ys ! j)" "update_one P f ys = ys[i := f x]" by blast
    have "\<forall>j<Suc i. \<not> P ((y # ys) ! j)"
      using False i(3) by (auto simp: less_Suc_eq_0_disj)
    with i False show ?thesis by (intro exI[of _ "Suc i"]) simp
  qed
qed

lemma update_one_first:
  assumes "i < length xs" "P (xs ! i)" "\<forall>j<i. \<not> P (xs ! j)"
  shows "update_one P f xs = xs[i := f (xs ! i)]"
proof -
  from assms have f: "find_one P xs = Some (xs ! i)"
    unfolding find_one_first by blast
  from update_one_found[OF f, of f] obtain k where
    k: "k < length xs" "xs ! k = xs ! i" "\<forall>j<k. \<not> P (xs ! j)" "update_one P f xs = xs[k := f (xs ! i)]"
    by blast
  from k(2) assms(2) have "P (xs ! k)" by simp
  with assms(3) k(3) assms(2) have "k = i"
    by (metis linorder_neqE_nat)
  with k(4) show ?thesis by simp
qed

lemma find_one_by_oid:
  "distinct (map adm_oid docs) \<Longrightarrow> a \<in> set docs \<Longrightarrow>
     find_one (\<lambda>d. adm_oid d = adm_oid a) docs = Some a"
  unfolding find_one_def by (induction docs) (auto simp: image_iff)

lemma create_document_ok:
  "coll \<notin> set (unwritable s) \<Longrightarrow>
     create_document coll ins s =
       (Inr (str_nat (next_oid s)), (ins (str_nat (next_oid s)) s)\<lparr>next_oid := Suc (next_oid s)\<rparr>)"
  by (simp add: create_document_def Let_def)

lemma create_document_raises:
  "coll \<in> set (unwritable s) \<Longrightarrow> create_document coll ins s = (Inl StoreException, s)"
  by (simp add: create_document_def)

lemma truthy_iff:
  "truthy v \<longleftrightarrow> v \<notin> {JNull, JBool False, JInt 0, JNum 0, JStr [], JList [], JDict []}"
  by (cases v) auto

lemma resolve_sku_eq:
  "resolve_sku it =
     (case map_of it ''drug'' of
        Some v \<Rightarrow>
          if v \<in> {JNull, JBool False, JInt 0, JNum 0, JStr [], JList [], JDict []}
          then (case map_of it ''sku'' of Some u \<Rightarrow> u | None \<Rightarrow> JNull) else v
      | None \<Rightarrow> (case map_of it ''sku'' of Some u \<Rightarrow> u | None \<Rightarrow> JNull))"
  unfolding resolve_sku_def py_or_def dict_get_def truthy_iff
  by (simp split: option.splits)

lemma sku_query_holds:
  "sku_query ops v = Inr P \<Longrightarrow>
     P d \<longleftrightarrow> (case v of JNull \<Rightarrow> sku d = None | JStr x \<Rightarrow> sku d = Some x
                | JDict q \<Rightarrow> (\<exists>Q. ops q = Inr Q \<and> Q d) | _ \<Rightarrow> False)"
  by (cases v) (auto simp: sku_query_def)

lemma sku_query_answered:
  "(\<forall>q. v = JDict q \<longrightarrow> (\<exists>Q. ops q = Inr Q)) \<Longrightarrow> \<exists>P. sku_query ops v = Inr P"
  by (cases v) (auto simp: sku_query_def)

lemma item_out_of_stock_iff:
  assumes P: "sku_query ops (resolve_sku it) = Inr P"
  shows "item_out_of_stock ops db_inv it \<longleftrightarrow>
           (\<forall>d \<in> set db_inv. \<not> P d) \<or>
           (\<exists>i<length db_inv. P (db_inv ! i) \<and> (\<forall>j<i. \<not> P (db_inv ! j)) \<and>
              (case stock (db_inv ! i) of None \<Rightarrow> True | Some n \<Rightarrow> n \<le> 0))"
proof (cases "find_one P db_inv")
  case None
  then have "\<forall>d \<in> set db_inv. \<not> P d" by (simp add: find_one_None)
  with None P show ?thesis
    by (simp add: item_out_of_stock_def find_one_sku_def)
next
  case (Some d)
  then obtain i where i: "i < length db_inv" "P (db_inv ! i)" "d = db_inv ! i"
      "\<forall>j<i. \<not> P (db_inv ! j)"
    unfolding find_one_first by blast
  have u: "k = i" if "k < length db_inv" "P (db_inv ! k)" "\<forall>j<k. \<not> P (db_inv ! j)" for k
    using that i by (metis linorder_neqE_nat)
  have m: "\<not> (\<forall>d \<in> set db_inv. \<not> P d)" using i(1,2) by (meson nth_mem)
  have l: "item_out_of_stock ops db_inv it \<longleftrightarrow>
             (case stock (db_inv ! i) of None \<Rightarrow> True | Some n \<Rightarrow> n \<le> 0)"
    using Some P i(3) by (simp add: item_out_of_stock_def find_one_sku_def get0_def split: option.splits)
  have r: "(\<exists>k<length db_inv. P (db_inv ! k) \<and> (\<forall>j<k. \<not> P (db_inv ! j)) \<and>
              (case stock (db_inv ! k) of None \<Rightarrow> True | Some n \<Rightarrow> n \<le> 0)) \<longleftrightarrow>
           (case stock (db_inv ! i) of None \<Rightarrow> True | Some n \<Rightarrow> n \<le> 0)"
    using u i by blast
  from l r m show ?thesis by blast
qed

lemma stock_loop_acc:
  assumes "\<forall>it \<in> set items. \<exists>P. sku_query ops (resolve_sku it) = Inr P"
  shows "stock_loop ops db_inv items acc =
           Inr (acc @ map resolve_sku (filter (item_out_of_stock ops db_inv) items))"
  using assms
proof (induction items arbitrary: acc)
  case Nil
  show ?case by simp
next
  case (Cons it items)
  from Cons.prems obtain P where P: "sku_query ops (resolve_sku it) = Inr P" by auto
  from Cons.prems have rest: "\<forall>it \<in> set items. \<exists>P. sku_query ops (resolve_sku it) = Inr P"
    by simp
  show ?case
    using P Cons.IH[OF rest]
    by (simp add: Let_def find_one_sku_def item_out_of_stock_def split: option.splits)
qed

lemma stock_loop_raises:
  assumes "\<forall>it \<in> set pre. \<exists>P. sku_query ops (resolve_sku it) = Inr P"
    and "sku_query ops (resolve_sku it) = Inl e"
  shows "stock_loop ops db_inv (pre @ it # post) acc = Inl e"
  using assms
proof (induction pre arbitrary: acc)
  case Nil
  then show ?case by (simp add: Let_def find_one_sku_def)
next
  case (Cons x pre)
  from Cons.prems obtain P where P: "sku_query ops (resolve_sku x) = Inr P" by auto
  from Cons.prems have rest: "\<forall>it \<in> set pre. \<exists>P. sku_query ops (resolve_sku it) = Inr P"
    by simp
  show ?case
    using P Cons.IH[OF rest Cons.prems(2)]
    by (simp add: Let_def find_one_sku_def)
qed

lemma bor_loop_sum:
  "bor_loop rs t oc =
     (t + sum_list (map (\<lambda>r. get0 (bed_count r)) rs),
      oc + sum_list (map (\<lambda>r. get0 (occupied_beds r)) rs))"
  by (induction rs arbitrary: t oc) auto

lemma get0_case: "get0 = (\<lambda>v. case v of None \<Rightarrow> 0 | Some n \<Rightarrow> n)"
  by (rule ext) (simp add: get0_def)

section \<open>Triage\<close>

text \<open>
  C2. For every triage payload the verdict is critical exactly when the coma score is
  present and at most 8, or the vital signs hold an spo2 reading below 90. When the
  verdict is critical and the incoming consent is false, the consent that is answered
  and stored is true and the flag auto_consent_emergency_protocol is appended to the
  stored flags; otherwise consent and flags are the incoming ones. The handler answers
  whenever the store accepts its two insertions.
\<close>

theorem triage_rule:
  fixes payload :: TriageEvent and critical consent :: bool and flags :: "string list"
  defines "critical \<equiv> (\<exists>g. gcs payload = Some g \<and> g \<le> 8) \<or>
                       (\<exists>v. map_of (vital_signs payload) ''spo2'' = Some (Some v) \<and> v < 90)"
  defines "consent \<equiv> (if critical \<and> \<not> consent_emergency_protocol payload
                       then True else consent_emergency_protocol payload)"
  defines "flags \<equiv> (if critical \<and> \<not> consent_emergency_protocol payload
                     then critical_flags payload @ [''auto_consent_emergency_protocol'']
                     else critical_flags payload)"
  assumes w: "''triageevent'' \<notin> set (unwritable s)" "''auditlog'' \<notin> set (unwritable s)"
  shows "\<exists>tid s'. triage s payload =
            (Inr [(''id'', PStr tid), (''critical'', PBool critical), (''consent'', PBool consent)], s') \<and>
          triageevents s' = triageevents s @
            [(tid, \<lparr>td_payload = payload, td_consent_emergency_protocol = consent,
                    td_critical_flags = flags\<rparr>)]"
proof -
  have c: "triage_critical payload = critical"
    unfolding triage_critical_def spo2_of_def critical_def Let_def
    by (cases "vital_signs payload") (auto split: option.splits)
  have d: "triage_dump payload =
      \<lparr>td_payload = payload, td_consent_emergency_protocol = consent, td_critical_flags = flags\<rparr>"
    unfolding triage_dump_def Let_def c consent_def flags_def by simp
  show ?thesis
    unfolding triage_def Let_def c d using w
    by (simp add: create_document_def Let_def)
qed

theorem triage_rule_witness:
  "''triageevent'' \<notin> set (unwritable empty_store) \<and> ''auditlog'' \<notin> set (unwritable empty_store) \<and>
   (\<exists>tid s'. triage empty_store casualty =
       (Inr [(''id'', PStr tid), (''critical'', PBool True), (''consent'', PBool True)], s') \<and>
     triageevents s' =
       [(tid, \<lparr>td_payload = casualty, td_consent_emergency_protocol = True,
               td_critical_flags = [''auto_consent_emergency_protocol'']\<rparr>)])"
  using triage_rule [of empty_store casualty]
  by (simp add: empty_store_def casualty_def)

section \<open>Admission ledger\<close>

text \<open>
  C3. An admission into a room code that no room document carries fails with 404, and an
  admission into a room whose occupied beds have reached its bed count fails with 409.
  Both leave the whole store as it was: no admission is created and no count changes.
\<close>

theorem create_admission_rejects:
  "((\<forall>r \<in> set (rooms s). code r \<noteq> room_code payload) \<longrightarrow>
      create_admission s payload = (Inl (HTTPException 404 ''Room not found''), s)) \<and>
   (\<forall>room. find_one (\<lambda>r. code r = room_code payload) (rooms s) = Some room \<and>
            get0 (occupied_beds room) \<ge> get0 (bed_count room) \<longrightarrow>
      create_admission s payload = (Inl (HTTPException 409 ''No available bed''), s))"
proof (intro conjI impI allI)
  assume "\<forall>r \<in> set (rooms s). code r \<noteq> room_code payload"
  then have "find_one (\<lambda>r. code r = room_code payload) (rooms s) = None"
    by (simp add: find_one_None)
  then show "create_admission s payload = (Inl (HTTPException 404 ''Room not found''), s)"
    by (simp add: create_admission_def)
next
  fix room
  assume "find_one (\<lambda>r. code r = room_code payload) (rooms s) = Some room \<and>
            get0 (occupied_beds room) \<ge> get0 (bed_count room)"
  then show "create_admission s payload = (Inl (HTTPException 409 ''No available bed''), s)"
    by (simp add: create_admission_def)
qed

theorem create_admission_rejects_witness:
  "rooms empty_store = [] \<and>
   create_admission empty_store stay = (Inl (HTTPException 404 ''Room not found''), empty_store) \<and>
   find_one (\<lambda>r. code r = room_code stay) (rooms full_ward) = Some (room_A1\<lparr>occupied_beds := Some 1\<rparr>) \<and>
   get0 (occupied_beds (room_A1\<lparr>occupied_beds := Some 1\<rparr>)) \<ge> get0 (bed_count (room_A1\<lparr>occupied_beds := Some 1\<rparr>)) \<and>
   create_admission full_ward stay = (Inl (HTTPException 409 ''No available bed''), full_ward)"
proof -
  have e: "\<forall>r \<in> set (rooms empty_store). code r \<noteq> room_code stay"
    by (simp add: empty_store_def)
  have f: "find_one (\<lambda>r. code r = room_code stay) (rooms full_ward) = Some (room_A1\<lparr>occupied_beds := Some 1\<rparr>)"
    by (simp add: full_ward_def room_A1_def stay_def find_one_def)
  have g: "get0 (occupied_beds (room_A1\<lparr>occupied_beds := Some 1\<rparr>)) \<ge> get0 (bed_count (room_A1\<lparr>occupied_beds := Some 1\<rparr>))"
    by (simp add: room_A1_def get0_def)
  from create_admission_rejects [of empty_store stay] e
  have a: "create_admission empty_store stay = (Inl (HTTPException 404 ''Room not found''), empty_store)"
    by blast
  from create_admission_rejects [of full_ward stay] f g
  have b: "create_admission full_ward stay = (Inl (HTTPException 409 ''No available bed''), full_ward)"
    by blast
  have r: "rooms empty_store = []"
    by (simp add: empty_store_def)
  from r a f g b show ?thesis by blast
qed

text \<open>
  C4, as amended. When the first room with the payload's code has fewer occupied beds
  than beds and the store accepts the two insertions, the handler answers with the new
  identifier; exactly one admission document is appended, holding the payload as it was
  sent (its end included, whatever the caller put there); the occupied beds of that room
  go up by exactly 1 (an absent count reading as 0) and every other room document is as
  before; one audit entry is appended; no other collection changes.
\<close>

theorem create_admission_effect:
  assumes i: "i < length (rooms s)" "code (rooms s ! i) = room_code payload"
             "\<forall>j<i. code (rooms s ! j) \<noteq> room_code payload"
    and free: "(case occupied_beds (rooms s ! i) of None \<Rightarrow> 0 | Some n \<Rightarrow> n) <
               (case bed_count (rooms s ! i) of None \<Rightarrow> 0 | Some n \<Rightarrow> n)"
    and w: "''admission'' \<notin> set (unwritable s)" "''auditlog'' \<notin> set (unwritable s)"
  shows "\<exists>aid lid s'.
           create_admission s payload = (Inr [(''id'', PStr aid)], s') \<and>
           admissions s' = admissions s @ [\<lparr>adm_oid = aid, adm_id = None, adm = payload\<rparr>] \<and>
           rooms s' = (rooms s)[i := (rooms s ! i)\<lparr>occupied_beds :=
                         Some ((case occupied_beds (rooms s ! i) of None \<Rightarrow> 0 | Some n \<Rightarrow> n) + 1)\<rparr>] \<and>
           auditlogs s' = auditlogs s @
             [(lid, \<lparr>actor_id = None, action = ''create'', entity = ''admission'',
                     entity_id = Some aid, meta = []\<rparr>)] \<and>
           patients s' = patients s \<and> triageevents s' = triageevents s \<and>
           inventoryitems s' = inventoryitems s \<and> procedures s' = procedures s \<and>
           labresults s' = labresults s"
proof -
  from i have room: "find_one (\<lambda>r. code r = room_code payload) (rooms s) = Some (rooms s ! i)"
    unfolding find_one_first by blast
  from i have u: "update_one (\<lambda>r. code r = room_code payload) (inc_occupied_beds 1) (rooms s)
          = (rooms s)[i := inc_occupied_beds 1 (rooms s ! i)]"
    by (intro update_one_first) simp_all
  have nf: "\<not> get0 (bed_count (rooms s ! i)) \<le> get0 (occupied_beds (rooms s ! i))"
    using free by (simp add: get0_case)
  show ?thesis
    apply (rule exI[of _ "str_nat (next_oid s)"])
    apply (rule exI[of _ "str_nat (Suc (next_oid s))"])
    unfolding create_admission_def room option.case
    using w u nf
    by (simp add: create_document_def Let_def inc_occupied_beds_def mk_audit_def get0_case)
qed

theorem create_admission_effect_witness:
  "rooms ward = [room_A1] \<and> code room_A1 = room_code late_stay \<and>
   occupied_beds room_A1 = Some 0 \<and> bed_count room_A1 = Some 1 \<and>
   ''admission'' \<notin> set (unwritable ward) \<and> ''auditlog'' \<notin> set (unwritable ward) \<and>
   (\<exists>aid lid s'.
      create_admission ward late_stay = (Inr [(''id'', PStr aid)], s') \<and>
      admissions s' = [\<lparr>adm_oid = aid, adm_id = None, adm = late_stay\<rparr>] \<and>
      rooms s' = [room_A1\<lparr>occupied_beds := Some 1\<rparr>] \<and>
      auditlogs s' = [(lid, \<lparr>actor_id = None, action = ''create'', entity = ''admission'',
                             entity_id = Some aid, meta = []\<rparr>)])"
proof -
  have r: "rooms ward = [room_A1]" "admissions ward = []" "auditlogs ward = []"
    by (simp_all add: ward_def empty_store_def)
  have c: "code room_A1 = room_code late_stay"
    by (simp add: room_A1_def late_stay_def stay_def)
  have o: "occupied_beds room_A1 = Some 0" "bed_count room_A1 = Some 1"
    by (simp_all add: room_A1_def)
  have w: "''admission'' \<notin> set (unwritable ward)" "''auditlog'' \<notin> set (unwritable ward)"
    by (simp_all add: ward_def empty_store_def)
  have i: "0 < length (rooms ward)" "code (rooms ward ! 0) = room_code late_stay"
          "\<forall>j<0. code (rooms ward ! j) \<noteq> room_code late_stay"
    using c by (simp_all add: r)
  have f: "(case occupied_beds (rooms ward ! 0) of None \<Rightarrow> 0 | Some n \<Rightarrow> n) <
           (case bed_count (rooms ward ! 0) of None \<Rightarrow> 0 | Some n \<Rightarrow> n)"
    by (simp add: r o)
  from create_admission_effect [OF i f w] obtain aid lid s' where
    h: "create_admission ward late_stay = (Inr [(''id'', PStr aid)], s')"
       "admissions s' = admissions ward @ [\<lparr>adm_oid = aid, adm_id = None, adm = late_stay\<rparr>]"
       "rooms s' = (rooms ward)[0 := (rooms ward ! 0)\<lparr>occupied_beds :=
                     Some ((case occupied_beds (rooms ward ! 0) of None \<Rightarrow> 0 | Some n \<Rightarrow> n) + 1)\<rparr>]"
       "auditlogs s' = auditlogs ward @
             [(lid, \<lparr>actor_id = None, action = ''create'', entity = ''admission'',
                     entity_id = Some aid, meta = []\<rparr>)]"
    by blast
  from h r o have
    "create_admission ward late_stay = (Inr [(''id'', PStr aid)], s') \<and>
      admissions s' = [\<lparr>adm_oid = aid, adm_id = None, adm = late_stay\<rparr>] \<and>
      rooms s' = [room_A1\<lparr>occupied_beds := Some 1\<rparr>] \<and>
      auditlogs s' = [(lid, \<lparr>actor_id = None, action = ''create'', entity = ''admission'',
                             entity_id = Some aid, meta = []\<rparr>)]"
    by simp
  with r(1) c o w show ?thesis by blast
qed

text \<open>
  C4 as stated fails on the end of the created admission: an admission sent with an end
  of its own is accepted and stored with that end, not with null.
\<close>

theorem create_admission_end_counterexample:
  "adm_end late_stay = Some 7 \<and>
   fst (create_admission ward late_stay) = Inr [(''id'', PStr ''0'')] \<and>
   map (\<lambda>d. adm_end (adm d)) (admissions (snd (create_admission ward late_stay))) = [Some 7]"
  by (simp add: create_admission_def ward_def empty_store_def room_A1_def late_stay_def stay_def
        find_one_def get0_def create_document_def Let_def str_nat.simps digit_char_def)

text \<open>
  C5. Let the store answer the \<^verbatim>\<open>$oid\<close> lookup with the predicate \<open>P\<close>. When \<open>P\<close>
  holds of no admission document and none carries the given id, discharge fails with 404
  and leaves the store as it was. When an admission is found (the first of which \<open>P\<close>
  holds, or else the first that carries the id), identifiers are distinct and the audit
  insertion is accepted, discharge answers ok, sets the end of that admission to the
  current time, and lowers the occupied beds of the first room with the admission's room
  code by exactly 1 (an absent count reading as 0) whatever the count was and whether or
  not the admission had an end already: there is no floor at 0. With no such room the
  rooms are as before. When the store rejects the \<^verbatim>\<open>$oid\<close> lookup, its error ends
  the handler before any write.
\<close>

theorem discharge_effect:
  "(\<forall>P. oid admission_id = Inr P \<and>
        (\<forall>d \<in> set (admissions s). \<not> P d \<and> adm_id d \<noteq> Some admission_id) \<longrightarrow>
      discharge oid s now admission_id = (Inl (HTTPException 404 ''Admission not found''), s)) \<and>
   (\<forall>P j. oid admission_id = Inr P \<and> j < length (admissions s) \<and>
        (P (admissions s ! j) \<and> (\<forall>k<j. \<not> P (admissions s ! k)) \<or>
         (\<forall>d \<in> set (admissions s). \<not> P d) \<and> adm_id (admissions s ! j) = Some admission_id \<and>
           (\<forall>k<j. adm_id (admissions s ! k) \<noteq> Some admission_id)) \<and>
        distinct (map adm_oid (admissions s)) \<and> ''auditlog'' \<notin> set (unwritable s) \<longrightarrow>
      (\<exists>s'. discharge oid s now admission_id = (Inr [(''status'', PStr ''ok'')], s') \<and>
          admissions s' = (admissions s)[j := (admissions s ! j)\<lparr>adm :=
                             (adm (admissions s ! j))\<lparr>adm_end := Some now\<rparr>\<rparr>] \<and>
          (\<forall>i<length (rooms s).
             code (rooms s ! i) = room_code (adm (admissions s ! j)) \<and>
             (\<forall>k<i. code (rooms s ! k) \<noteq> room_code (adm (admissions s ! j))) \<longrightarrow>
             rooms s' = (rooms s)[i := (rooms s ! i)\<lparr>occupied_beds :=
                Some ((case occupied_beds (rooms s ! i) of None \<Rightarrow> 0 | Some n \<Rightarrow> n) - 1)\<rparr>]) \<and>
          ((\<forall>r \<in> set (rooms s). code r \<noteq> room_code (adm (admissions s ! j))) \<longrightarrow>
             rooms s' = rooms s))) \<and>
   (\<forall>e. oid admission_id = Inl e \<longrightarrow> discharge oid s now admission_id = (Inl e, s))"
proof (intro conjI impI allI)
  fix P
  assume h: "oid admission_id = Inr P \<and>
        (\<forall>d \<in> set (admissions s). \<not> P d \<and> adm_id d \<noteq> Some admission_id)"
  then have "find_one P (admissions s) = None"
    "find_one (\<lambda>d. adm_id d = Some admission_id) (admissions s) = None"
    by (simp_all add: find_one_None)
  with h have "find_admission oid (admissions s) admission_id = Inr None"
    by (simp add: find_admission_def)
  then show "discharge oid s now admission_id = (Inl (HTTPException 404 ''Admission not found''), s)"
    by (simp add: discharge_def)
next
  fix e
  assume "oid admission_id = Inl e"
  then show "discharge oid s now admission_id = (Inl e, s)"
    by (simp add: discharge_def find_admission_def)
next
  fix P j
  let ?a = "admissions s ! j"
  assume h: "oid admission_id = Inr P \<and> j < length (admissions s) \<and>
        (P (admissions s ! j) \<and> (\<forall>k<j. \<not> P (admissions s ! k)) \<or>
         (\<forall>d \<in> set (admissions s). \<not> P d) \<and> adm_id (admissions s ! j) = Some admission_id \<and>
           (\<forall>k<j. adm_id (admissions s ! k) \<noteq> Some admission_id)) \<and>
        distinct (map adm_oid (admissions s)) \<and> ''auditlog'' \<notin> set (unwritable s)"
  then have P: "oid admission_id = Inr P" and j: "j < length (admissions s)"
    and dist: "distinct (map adm_oid (admissions s))"
    and w: "''auditlog'' \<notin> set (unwritable s)" by simp_all
  from h have
    "find_one P (admissions s) = Some ?a \<or>
     find_one P (admissions s) = None \<and>
       find_one (\<lambda>d. adm_id d = Some admission_id) (admissions s) = Some ?a"
    unfolding find_one_first find_one_None by blast
  with P have fa: "find_admission oid (admissions s) admission_id = Inr (Some ?a)"
    by (auto simp: find_admission_def)
  from j have mem: "?a \<in> set (admissions s)" by simp
  have dj: "\<forall>k<j. adm_oid (admissions s ! k) \<noteq> adm_oid ?a"
    using dist j by (auto simp: distinct_conv_nth)
  have ua: "update_one (\<lambda>d. adm_oid d = adm_oid ?a) (set_end now) (admissions s)
          = (admissions s)[j := set_end now ?a]"
    using j dj by (intro update_one_first) simp_all
  define s' where "s' = snd (discharge oid s now admission_id)"
  have d: "discharge oid s now admission_id = (Inr [(''status'', PStr ''ok'')], s')"
    unfolding s'_def discharge_def fa sum.case option.case using w
    by (simp add: create_document_def Let_def)
  have ad: "admissions s' = (admissions s)[j := ?a\<lparr>adm := (adm ?a)\<lparr>adm_end := Some now\<rparr>\<rparr>]"
    unfolding s'_def discharge_def fa sum.case option.case using w ua
    by (simp add: create_document_def Let_def set_end_def)
  have rm: "rooms s' = update_one (\<lambda>r. code r = room_code (adm ?a)) (inc_occupied_beds (- 1)) (rooms s)"
    unfolding s'_def discharge_def fa sum.case option.case using w
    by (simp add: create_document_def Let_def)
  have rr: "\<forall>i<length (rooms s).
             code (rooms s ! i) = room_code (adm ?a) \<and>
             (\<forall>k<i. code (rooms s ! k) \<noteq> room_code (adm ?a)) \<longrightarrow>
             rooms s' = (rooms s)[i := (rooms s ! i)\<lparr>occupied_beds :=
                Some ((case occupied_beds (rooms s ! i) of None \<Rightarrow> 0 | Some n \<Rightarrow> n) - 1)\<rparr>]"
  proof (intro allI impI)
    fix i
    assume il: "i < length (rooms s)"
      and ii: "code (rooms s ! i) = room_code (adm ?a) \<and>
               (\<forall>k<i. code (rooms s ! k) \<noteq> room_code (adm ?a))"
    have "update_one (\<lambda>r. code r = room_code (adm ?a)) (inc_occupied_beds (- 1)) (rooms s)
            = (rooms s)[i := inc_occupied_beds (- 1) (rooms s ! i)]"
      using il ii by (intro update_one_first) simp_all
    with rm show "rooms s' = (rooms s)[i := (rooms s ! i)\<lparr>occupied_beds :=
                Some ((case occupied_beds (rooms s ! i) of None \<Rightarrow> 0 | Some n \<Rightarrow> n) - 1)\<rparr>]"
      by (simp add: inc_occupied_beds_def get0_case)
  qed
  have rn: "(\<forall>r \<in> set (rooms s). code r \<noteq> room_code (adm ?a)) \<longrightarrow> rooms s' = rooms s"
    using rm by (simp add: update_one_none find_one_None)
  from d ad rr rn
  show "\<exists>s'. discharge oid s now admission_id = (Inr [(''status'', PStr ''ok'')], s') \<and>
          admissions s' = (admissions s)[j := (admissions s ! j)\<lparr>adm :=
                             (adm (admissions s ! j))\<lparr>adm_end := Some now\<rparr>\<rparr>] \<and>
          (\<forall>i<length (rooms s).
             code (rooms s ! i) = room_code (adm (admissions s ! j)) \<and>
             (\<forall>k<i. code (rooms s ! k) \<noteq> room_code (adm (admissions s ! j))) \<longrightarrow>
             rooms s' = (rooms s)[i := (rooms s ! i)\<lparr>occupied_beds :=
                Some ((case occupied_beds (rooms s ! i) of None \<Rightarrow> 0 | Some n \<Rightarrow> n) - 1)\<rparr>]) \<and>
          ((\<forall>r \<in> set (rooms s). code r \<noteq> room_code (adm (admissions s ! j))) \<longrightarrow>
             rooms s' = rooms s)"
    by blast
qed

theorem discharge_effect_witness:
  "oid_lookup ''0'' = Inr (\<lambda>d. adm_oid d = ''0'') \<and>
   admissions closed_ward = [closed_adm] \<and> adm_oid closed_adm = ''0'' \<and>
   adm_end (adm closed_adm) = Some 5 \<and>
   rooms closed_ward = [room_A1] \<and> occupied_beds room_A1 = Some 0 \<and>
   ''auditlog'' \<notin> set (unwritable closed_ward) \<and>
   fst (discharge oid_lookup closed_ward 9 ''0'') = Inr [(''status'', PStr ''ok'')] \<and>
   admissions (snd (discharge oid_lookup closed_ward 9 ''0'')) =
     [closed_adm\<lparr>adm := (adm closed_adm)\<lparr>adm_end := Some 9\<rparr>\<rparr>] \<and>
   rooms (snd (discharge oid_lookup closed_ward 9 ''0'')) = [room_A1\<lparr>occupied_beds := Some (- 1)\<rparr>] \<and>
   discharge oid_lookup closed_ward 9 ''zz'' =
     (Inl (HTTPException 404 ''Admission not found''), closed_ward) \<and>
   discharge oid_rejected closed_ward 9 ''0'' = (Inl StoreException, closed_ward)"
proof -
  have a: "admissions closed_ward = [closed_adm]" "rooms closed_ward = [room_A1]"
    by (simp_all add: closed_ward_def empty_store_def)
  have q: "oid_lookup ''0'' = Inr (\<lambda>d. adm_oid d = ''0'')"
          "oid_lookup ''zz'' = Inr (\<lambda>d. adm_oid d = ''zz'')"
          "oid_rejected ''0'' = Inl StoreException"
    by (simp_all add: oid_lookup_def oid_rejected_def)
  have c: "adm_oid closed_adm = ''0''" "adm_end (adm closed_adm) = Some 5"
          "adm_id closed_adm = None" "room_code (adm closed_adm) = ''A1''"
    by (simp_all add: closed_adm_def stay_def)
  have o: "occupied_beds room_A1 = Some 0" "code room_A1 = ''A1''"
    by (simp_all add: room_A1_def)
  have w: "''auditlog'' \<notin> set (unwritable closed_ward)"
    by (simp add: closed_ward_def empty_store_def)
  have n: "\<forall>d \<in> set (admissions closed_ward). \<not> adm_oid d = ''zz'' \<and> adm_id d \<noteq> Some ''zz''"
    by (simp add: a c)
  from discharge_effect [of oid_lookup "''zz''" closed_ward 9] q(2) n
  have z: "discharge oid_lookup closed_ward 9 ''zz'' =
             (Inl (HTTPException 404 ''Admission not found''), closed_ward)"
    by blast
  from discharge_effect [of oid_rejected "''0''" closed_ward 9] q(3)
  have x: "discharge oid_rejected closed_ward 9 ''0'' = (Inl StoreException, closed_ward)"
    by blast
  have j: "0 < length (admissions closed_ward)"
          "adm_oid (admissions closed_ward ! 0) = ''0'' \<and> (\<forall>k<0. \<not> adm_oid (admissions closed_ward ! k) = ''0'')"
          "distinct (map adm_oid (admissions closed_ward))"
    by (simp_all add: a c)
  from discharge_effect [of oid_lookup "''0''" closed_ward 9] q(1) j w obtain s' where
    h: "discharge oid_lookup closed_ward 9 ''0'' = (Inr [(''status'', PStr ''ok'')], s')"
       "admissions s' = (admissions closed_ward)[0 := (admissions closed_ward ! 0)\<lparr>adm :=
                             (adm (admissions closed_ward ! 0))\<lparr>adm_end := Some 9\<rparr>\<rparr>]"
       "\<forall>i<length (rooms closed_ward).
             code (rooms closed_ward ! i) = room_code (adm (admissions closed_ward ! 0)) \<and>
             (\<forall>k<i. code (rooms closed_ward ! k) \<noteq> room_code (adm (admissions closed_ward ! 0))) \<longrightarrow>
             rooms s' = (rooms closed_ward)[i := (rooms closed_ward ! i)\<lparr>occupied_beds :=
                Some ((case occupied_beds (rooms closed_ward ! i) of None \<Rightarrow> 0 | Some n \<Rightarrow> n) - 1)\<rparr>]"
    by blast
  have "0 < length (rooms closed_ward) \<and>
        code (rooms closed_ward ! 0) = room_code (adm (admissions closed_ward ! 0)) \<and>
        (\<forall>k<0. code (rooms closed_ward ! k) \<noteq> room_code (adm (admissions closed_ward ! 0)))"
    by (simp add: a c o)
  with h(3) have "rooms s' = (rooms closed_ward)[0 := (rooms closed_ward ! 0)\<lparr>occupied_beds :=
                Some ((case occupied_beds (rooms closed_ward ! 0) of None \<Rightarrow> 0 | Some n \<Rightarrow> n) - 1)\<rparr>]"
    by blast
  then have rs: "rooms s' = [room_A1\<lparr>occupied_beds := Some (- 1)\<rparr>]"
    by (simp add: a o)
  from h(2) have as: "admissions s' = [closed_adm\<lparr>adm := (adm closed_adm)\<lparr>adm_end := Some 9\<rparr>\<rparr>]"
    by (simp add: a)
  from q(1) a c(1,2) o(1) w h(1) as rs z x show ?thesis by simp
qed

text \<open>
  C1. The occupancy invariant does not survive a repeated discharge. Room A1 has one bed
  and none occupied. One admission into A1 followed by two discharges of that admission,
  every call answered with success, leaves A1 with -1 occupied beds. The same happens
  through the fallback lookup: a ward with its one bed occupied by an admission that
  carries the field id is left with -1 occupied beds by two discharges.
\<close>

theorem double_discharge_goes_negative:
  "map (\<lambda>r. (occupied_beds r, bed_count r)) (rooms ward) = [(Some 0, Some 1)] \<and>
   fst (create_admission ward stay) = Inr [(''id'', PStr ''0'')] \<and>
   fst (discharge oid_lookup (snd (create_admission ward stay)) 5 ''0'') = Inr [(''status'', PStr ''ok'')] \<and>
   fst (discharge oid_lookup (snd (discharge oid_lookup (snd (create_admission ward stay)) 5 ''0'')) 6 ''0'')
     = Inr [(''status'', PStr ''ok'')] \<and>
   map (\<lambda>r. (occupied_beds r, bed_count r))
     (rooms (snd (discharge oid_lookup (snd (discharge oid_lookup (snd (create_admission ward stay)) 5 ''0'')) 6 ''0'')))
     = [(Some (- 1), Some 1)] \<and>
   map (\<lambda>r. (occupied_beds r, bed_count r)) (rooms legacy_ward) = [(Some 1, Some 1)] \<and>
   fst (discharge oid_unmatched legacy_ward 5 ''a1'') = Inr [(''status'', PStr ''ok'')] \<and>
   fst (discharge oid_unmatched (snd (discharge oid_unmatched legacy_ward 5 ''a1'')) 6 ''a1'')
     = Inr [(''status'', PStr ''ok'')] \<and>
   map (\<lambda>r. (occupied_beds r, bed_count r))
     (rooms (snd (discharge oid_unmatched (snd (discharge oid_unmatched legacy_ward 5 ''a1'')) 6 ''a1'')))
     = [(Some (- 1), Some 1)]"
  by code_simp

section \<open>Pharmacy stock check\<close>

text \<open>
  C6. The identifier of an item is the value under drug unless that value is absent or
  false in Python's sense (null, false, 0, the empty string, list or object), and then
  the value under sku, null when that is absent too. A record matches a string when its
  sku is that string, matches null when it has no sku, matches an object when the
  condition that the store reads in the object holds of it, and matches nothing else.
  For every item list whose object identifiers the store accepts as conditions, the
  out-of-stock list holds, in order, the identifier of exactly those items for which no
  record matches or the first record that matches has a stock of at most zero (an absent
  stock reading as 0); the status is validated when that list is empty and
  out_of_stock_external otherwise; the store is handed back as it was.
\<close>

theorem validate_prescription_verdict:
  fixes ops :: sku_ops and s :: store and req :: PrescriptionValidateRequest
    and ident :: "jdict \<Rightarrow> json" and matches :: "json \<Rightarrow> inventory_doc \<Rightarrow> bool"
    and oos :: "jdict \<Rightarrow> bool"
  defines "ident \<equiv> \<lambda>it.
      case map_of it ''drug'' of
        Some v \<Rightarrow>
          if v \<in> {JNull, JBool False, JInt 0, JNum 0, JStr [], JList [], JDict []}
          then (case map_of it ''sku'' of Some u \<Rightarrow> u | None \<Rightarrow> JNull) else v
      | None \<Rightarrow> (case map_of it ''sku'' of Some u \<Rightarrow> u | None \<Rightarrow> JNull)"
  defines "matches \<equiv> \<lambda>v d.
      case v of JNull \<Rightarrow> sku d = None | JStr x \<Rightarrow> sku d = Some x
              | JDict q \<Rightarrow> (\<exists>Q. ops q = Inr Q \<and> Q d) | _ \<Rightarrow> False"
  defines "oos \<equiv> \<lambda>it.
      (\<forall>d \<in> set (inventoryitems s). \<not> matches (ident it) d) \<or>
      (\<exists>i<length (inventoryitems s).
          matches (ident it) (inventoryitems s ! i) \<and>
          (\<forall>j<i. \<not> matches (ident it) (inventoryitems s ! j)) \<and>
          (case stock (inventoryitems s ! i) of None \<Rightarrow> True | Some n \<Rightarrow> n \<le> 0))"
  assumes answered:
    "\<forall>it \<in> set (rx_items (prescription req)). \<forall>q. ident it = JDict q \<longrightarrow> (\<exists>Q. ops q = Inr Q)"
  shows "validate_prescription ops s req =
     (Inr [(''status'', PStr (if filter oos (rx_items (prescription req)) = []
                              then ''validated'' else ''out_of_stock_external'')),
           (''out_of_stock'',
              PList (map (\<lambda>it. PJson (ident it)) (filter oos (rx_items (prescription req)))))], s)"
proof -
  let ?inv = "inventoryitems s" and ?items = "rx_items (prescription req)"
  have id: "ident = resolve_sku"
    unfolding ident_def by (rule ext) (simp add: resolve_sku_eq)
  have ans: "\<forall>it \<in> set ?items. \<exists>P. sku_query ops (resolve_sku it) = Inr P"
    using answered unfolding id by (auto intro: sku_query_answered)
  have o: "oos it \<longleftrightarrow> item_out_of_stock ops ?inv it" if "it \<in> set ?items" for it
  proof -
    from ans that obtain P where P: "sku_query ops (resolve_sku it) = Inr P" by blast
    have mm: "matches (ident it) d \<longleftrightarrow> P d" for d
      using sku_query_holds[OF P, of d] unfolding matches_def id by simp
    show ?thesis
      unfolding oos_def mm item_out_of_stock_iff[OF P] by simp
  qed
  then have f: "filter oos ?items = filter (item_out_of_stock ops ?inv) ?items"
    by (auto intro: filter_cong)
  have l: "stock_loop ops ?inv ?items [] =
             Inr (map resolve_sku (filter (item_out_of_stock ops ?inv) ?items))"
    using stock_loop_acc[OF ans, of ?inv "[]"] by simp
  show ?thesis
    unfolding validate_prescription_def Let_def l sum.case f id
    by (simp add: comp_def)
qed

theorem validate_prescription_verdict_witness:
  "exists_ops [(''$exists'', JBool True)] = Inr (\<lambda>d. sku d \<noteq> None) \<and>
   inventoryitems pharmacy =
     [\<lparr>sku = Some ''Y'', stock = Some 4\<rparr>, \<lparr>sku = Some ''X'', stock = Some 0\<rparr>,
      \<lparr>sku = Some ''W'', stock = None\<rparr>] \<and>
   rx_items (prescription rx) =
     [[(''sku'', JStr ''X'')],
      [(''sku'', JStr ''X''), (''drug'', JStr ''Y'')],
      [(''drug'', JStr []), (''sku'', JStr ''Y'')],
      [(''drug'', JStr ''Z''), (''sku'', JStr ''Y'')],
      [(''drug'', JStr ''W'')],
      [(''dose'', JInt 2)],
      [(''drug'', JDict [(''$exists'', JBool True)])]] \<and>
   validate_prescription exists_ops pharmacy rx =
     (Inr [(''status'', PStr ''out_of_stock_external''),
           (''out_of_stock'',
              PList [PJson (JStr ''X''), PJson (JStr ''Z''), PJson (JStr ''W''), PJson JNull])],
      pharmacy)"
proof -
  have e: "exists_ops [(''$exists'', JBool True)] = Inr (\<lambda>d. sku d \<noteq> None)"
    by (simp add: exists_ops_def)
  have i: "inventoryitems pharmacy =
     [\<lparr>sku = Some ''Y'', stock = Some 4\<rparr>, \<lparr>sku = Some ''X'', stock = Some 0\<rparr>,
      \<lparr>sku = Some ''W'', stock = None\<rparr>]"
    by (simp add: pharmacy_def empty_store_def)
  have r: "rx_items (prescription rx) =
     [[(''sku'', JStr ''X'')],
      [(''sku'', JStr ''X''), (''drug'', JStr ''Y'')],
      [(''drug'', JStr []), (''sku'', JStr ''Y'')],
      [(''drug'', JStr ''Z''), (''sku'', JStr ''Y'')],
      [(''drug'', JStr ''W'')],
      [(''dose'', JInt 2)],
      [(''drug'', JDict [(''$exists'', JBool True)])]]"
    by (simp add: rx_def rx_items_example_def)
  have v: "validate_prescription exists_ops pharmacy rx =
     (Inr [(''status'', PStr ''out_of_stock_external''),
           (''out_of_stock'',
              PList [PJson (JStr ''X''), PJson (JStr ''Z''), PJson (JStr ''W''), PJson JNull])],
      pharmacy)"
    using validate_prescription_verdict [of rx exists_ops pharmacy]
    unfolding r i
    by (simp add: e Ex_less_Suc All_less_Suc)
  show ?thesis
    by (rule conjI[OF e conjI[OF i conjI[OF r v]]])
qed

text \<open>
  An identifier that the store rejects as a condition ends the handler with the error of
  the store, at the first item that carries one; nothing is answered and nothing is
  written.
\<close>

lemma validate_prescription_raises:
  assumes "rx_items (prescription req) = pre @ it # post"
    and "\<forall>x \<in> set pre. \<exists>P. sku_query ops (resolve_sku x) = Inr P"
    and "sku_query ops (resolve_sku it) = Inl e"
  shows "validate_prescription ops s req = (Inl e, s)"
  using stock_loop_raises[OF assms(2,3), of "inventoryitems s" post "[]"] assms(1)
  by (simp add: validate_prescription_def Let_def)

lemma validate_prescription_raises_example:
  "validate_prescription exists_ops pharmacy rx_rejected = (Inl StoreException, pharmacy)"
  by (simp add: validate_prescription_def Let_def rx_rejected_def pharmacy_def empty_store_def
        find_one_sku_def sku_query_def resolve_sku_def py_or_def dict_get_def exists_ops_def
        find_one_def get0_def)

text \<open>
  C10. The stock check hands back the store it was given: no document of any collection
  is created or changed, and the insertion counter does not move. This holds for every
  request and every reading of the queries by the store, also when the store raises.
\<close>

theorem validate_prescription_frame: "snd (validate_prescription ops s req) = s"
  by (simp add: validate_prescription_def Let_def split: sum.splits)

section \<open>Occupancy dashboard\<close>

text \<open>
  C7, as amended. The report holds the sums of the bed counts and of the occupied beds
  over all rooms under total_beds and occupied (an absent count reading as 0), and the
  rate under the key bor: the integer 0 when total_beds is 0, and otherwise the double
  that Python computes for occupied / total_beds * 100, a true division of the two
  integers followed by a multiplication by 100, each rounded to a double. With no room
  the report is total_beds 0, occupied 0, bor 0.
\<close>

theorem dashboard_bor_report:
  fixes s :: store
  defines "tb \<equiv> sum_list (map (\<lambda>r. case bed_count r of None \<Rightarrow> 0 | Some n \<Rightarrow> n) (rooms s))"
  defines "ob \<equiv> sum_list (map (\<lambda>r. case occupied_beds r of None \<Rightarrow> 0 | Some n \<Rightarrow> n) (rooms s))"
  shows "dashboard_bor s =
           (Inr [(''total_beds'', PInt tb), (''occupied'', PInt ob),
                 (''bor'', if tb = 0 then PInt 0 else PFloat (FloatMul (TrueDiv ob tb) 100))], s)
         \<and> (rooms s = [] \<longrightarrow>
              dashboard_bor s =
                (Inr [(''total_beds'', PInt 0), (''occupied'', PInt 0), (''bor'', PInt 0)], s))"
  by (auto simp: dashboard_bor_def bor_loop_sum tb_def ob_def get0_case)

theorem dashboard_bor_report_witness:
  "rooms empty_store = [] \<and>
   dashboard_bor empty_store =
     (Inr [(''total_beds'', PInt 0), (''occupied'', PInt 0), (''bor'', PInt 0)], empty_store) \<and>
   map (\<lambda>r. (bed_count r, occupied_beds r)) (rooms big_ward) = [(Some 4, Some 1), (Some 3, None)] \<and>
   dashboard_bor big_ward =
     (Inr [(''total_beds'', PInt 7), (''occupied'', PInt 1),
           (''bor'', PFloat (FloatMul (TrueDiv 1 7) 100))], big_ward)"
  using dashboard_bor_report [of empty_store] dashboard_bor_report [of big_ward]
  by (simp add: empty_store_def big_ward_def room_A1_def)

text \<open>
  C7 as stated fails on the name of the field: the report of a store without rooms has
  no field bed_occupancy_rate; the rate is under bor.
\<close>

theorem dashboard_bor_field_counterexample:
  "answer (dashboard_bor empty_store) ''bed_occupancy_rate'' = None \<and>
   answer (dashboard_bor empty_store) ''bor'' = Some (PInt 0)"
  by (simp add: answer_def dashboard_bor_def empty_store_def)

section \<open>Audit trail\<close>




section \<open>Sterile workflow\<close>

text \<open>
  C9, as amended. When the store accepts the procedure, exactly one procedure document
  is appended. If the procedure requires sterile handling and its batch is absent or the
  empty string, the stored batch is AUTO- followed by the whole seconds of the clock, and
  the stored due date is the ISO text of the instant 8 hours after the current time,
  whatever due date was sent. If it does not require sterile handling, or a batch that
  is not empty was sent, batch and due date are stored as sent.
\<close>

theorem create_procedure_sterile:
  assumes w: "''procedure'' \<notin> set (unwritable s)"
  shows "\<exists>d. procedures (snd (create_procedure s stamp now payload)) =
                procedures s @ [(str_nat (next_oid s), d)] \<and>
              pd_payload d = payload \<and>
              (requires_sterile payload \<and>
               (sterile_batch payload = None \<or> sterile_batch payload = Some []) \<longrightarrow>
                 pd_sterile_batch d = Some (''AUTO-'' @ str_int stamp) \<and>
                 pd_cssd_return_due d = Some (DueIso (now + 8 * 3600 * 1000000))) \<and>
              (\<not> requires_sterile payload \<or>
               (\<exists>b. sterile_batch payload = Some b \<and> b \<noteq> []) \<longrightarrow>
                 pd_sterile_batch d = sterile_batch payload \<and>
                 pd_cssd_return_due d = map_option DueGiven (cssd_return_due payload))"
proof -
  have p: "procedures (snd (create_procedure s stamp now payload)) =
             procedures s @ [(str_nat (next_oid s), procedure_dump stamp now payload)]"
    using w
    by (simp add: create_procedure_def create_document_def Let_def split: prod.splits sum.splits if_splits)
  have q: "pd_payload (procedure_dump stamp now payload) = payload"
    by (simp add: procedure_dump_def Let_def)
  have a: "requires_sterile payload \<and>
           (sterile_batch payload = None \<or> sterile_batch payload = Some []) \<longrightarrow>
             pd_sterile_batch (procedure_dump stamp now payload) = Some (''AUTO-'' @ str_int stamp) \<and>
             pd_cssd_return_due (procedure_dump stamp now payload) = Some (DueIso (now + 8 * 3600 * 1000000))"
    by (auto simp: procedure_dump_def Let_def str_absent_def hours_def split: option.splits)
  have b: "\<not> requires_sterile payload \<or>
           (\<exists>b. sterile_batch payload = Some b \<and> b \<noteq> []) \<longrightarrow>
             pd_sterile_batch (procedure_dump stamp now payload) = sterile_batch payload \<and>
             pd_cssd_return_due (procedure_dump stamp now payload) = map_option DueGiven (cssd_return_due payload)"
    by (auto simp: procedure_dump_def Let_def str_absent_def split: option.splits)
  from p q a b show ?thesis by blast
qed

theorem create_procedure_sterile_witness:
  "unwritable empty_store = [] \<and>
   requires_sterile swab \<and> sterile_batch swab = Some [] \<and>
   (\<exists>d. procedures (snd (create_procedure empty_store 1700000000 1700000000123999 swab)) =
           [(''0'', d)] \<and>
        pd_payload d = swab \<and>
        pd_sterile_batch d = Some ''AUTO-1700000000'' \<and>
        pd_cssd_return_due d = Some (DueIso 1700028800123999))"
proof -
  have u: "unwritable empty_store = []" by (simp add: empty_store_def)
  have w: "''procedure'' \<notin> set (unwritable empty_store)" by (simp add: u)
  have r: "requires_sterile swab" "sterile_batch swab = Some []" by (simp_all add: swab_def)
  have n: "str_nat (next_oid empty_store) = ''0''" "procedures empty_store = []"
    by (simp_all add: empty_store_def str_nat.simps digit_char_def)
  have t: "''AUTO-'' @ str_int 1700000000 = ''AUTO-1700000000''"
    by (simp add: str_int_def str_nat.simps digit_char_def)
  have v: "(1700000000123999::int) + 8 * 3600 * 1000000 = 1700028800123999" by simp
  from create_procedure_sterile [OF w, of 1700000000 1700000000123999 swab] r
  obtain d where
    "procedures (snd (create_procedure empty_store 1700000000 1700000000123999 swab)) =
       procedures empty_store @ [(str_nat (next_oid empty_store), d)]"
    "pd_payload d = swab"
    "pd_sterile_batch d = Some (''AUTO-'' @ str_int 1700000000)"
    "pd_cssd_return_due d = Some (DueIso (1700000000123999 + 8 * 3600 * 1000000))"
    by blast
  with n t v have
    "procedures (snd (create_procedure empty_store 1700000000 1700000000123999 swab)) =
           [(''0'', d)] \<and>
        pd_payload d = swab \<and>
        pd_sterile_batch d = Some ''AUTO-1700000000'' \<and>
        pd_cssd_return_due d = Some (DueIso 1700028800123999)"
    by simp
  with u r show ?thesis by blast
qed

text \<open>
  C9 as stated fails on a batch that is sent empty: the procedure requires sterile
  handling and is sent with the batch "" and a due date of its own; neither is stored as
  sent, the batch is generated and the due date replaced.
\<close>

theorem create_procedure_empty_batch_counterexample:
  "requires_sterile swab \<and> sterile_batch swab = Some [] \<and> cssd_return_due swab = Some 5 \<and>
   map (\<lambda>d. (pd_sterile_batch (snd d), pd_cssd_return_due (snd d)))
     (procedures (snd (create_procedure empty_store 1700000000 1700000000123999 swab)))
   = [(Some ''AUTO-1700000000'', Some (DueIso 1700028800123999))]"
  by (simp add: create_procedure_def procedure_dump_def create_document_def Let_def swab_def
        empty_store_def str_absent_def hours_def str_int_def str_nat.simps digit_char_def)

end
